theory Spec2Isabelle
  imports Main
begin

section \<open>JavaScript values used by the server\<close>

text \<open>
  The server is JavaScript. The parts of the language its pagination, filtering, store and
  authorisation code rely on are written out here.

  A number is a mathematical integer or NaN (\<open>None\<close>). Every number the modelled code
  computes comes from \<open>parseInt\<close>, an array length or integer arithmetic on those, so
  fractions do not occur; the rounding of doubles above \<open>2^53\<close> and the exponent notation
  of \<open>toString\<close> from \<open>10^21\<close> on are not modelled. Strings are byte strings: the white
  space \<open>parseInt\<close> skips and the letters \<open>toLowerCase\<close> maps are the ASCII ones.
  Reading \<open>obj[key]\<close> on a plain object finds an own key, a member inherited from
  \<open>Object.prototype\<close>, or nothing (\<open>get_property\<close> below).
\<close>

type_synonym number = "int option"

definition num_add :: "number \<Rightarrow> number \<Rightarrow> number" where
  "num_add a b = (case a of None \<Rightarrow> None | Some x \<Rightarrow> (case b of None \<Rightarrow> None | Some y \<Rightarrow> Some (x + y)))"

definition num_lt :: "number \<Rightarrow> number \<Rightarrow> bool" where
  "num_lt a b = (case a of None \<Rightarrow> False | Some x \<Rightarrow> (case b of None \<Rightarrow> False | Some y \<Rightarrow> x < y))"

definition num_gt :: "number \<Rightarrow> number \<Rightarrow> bool" where
  "num_gt a b = num_lt b a"

text \<open>\<open>x || d\<close> on numbers: NaN and 0 are falsy.\<close>

definition num_or :: "number \<Rightarrow> int \<Rightarrow> int" where
  "num_or a d = (case a of None \<Rightarrow> d | Some x \<Rightarrow> if x = 0 then d else x)"

subsection \<open>Number to string\<close>

definition digit_char :: "nat \<Rightarrow> char" where
  "digit_char d = char_of (48 + d)"

fun digits_of :: "nat \<Rightarrow> string" where
  "digits_of n = (if n < 10 then [digit_char n] else digits_of (n div 10) @ [digit_char (n mod 10)])"

declare digits_of.simps [simp del]

definition int_toString :: "int \<Rightarrow> string" where
  "int_toString i = (if i < 0 then CHR ''-'' # digits_of (nat (- i)) else digits_of (nat i))"

definition toString :: "number \<Rightarrow> string" where
  "toString a = (case a of None \<Rightarrow> ''NaN'' | Some i \<Rightarrow> int_toString i)"

subsection \<open>parseInt\<close>

text \<open>
  \<open>parseInt(s)\<close> with no radix: skip leading white space, read an optional sign, switch to
  radix 16 after a \<open>0x\<close> or \<open>0X\<close> prefix, read the longest run of digits of the radix and
  ignore the rest; NaN when that run is empty.
\<close>

definition isWhiteSpace :: "char \<Rightarrow> bool" where
  "isWhiteSpace c = (let k = (of_char c :: nat) in (9 \<le> k \<and> k \<le> 13) \<or> k = 32)"

definition digit_value :: "char \<Rightarrow> nat option" where
  "digit_value c =
     (let k = (of_char c :: nat) in
      if 48 \<le> k \<and> k \<le> 57 then Some (k - 48)
      else if 97 \<le> k \<and> k \<le> 122 then Some (k - 87)
      else if 65 \<le> k \<and> k \<le> 90 then Some (k - 55)
      else None)"

definition isRadixDigit :: "nat \<Rightarrow> char \<Rightarrow> bool" where
  "isRadixDigit r c = (case digit_value c of None \<Rightarrow> False | Some d \<Rightarrow> d < r)"

definition radix_value :: "nat \<Rightarrow> string \<Rightarrow> nat" where
  "radix_value r z = foldl (\<lambda>acc c. acc * r + the (digit_value c)) 0 z"

definition hasHexPrefix :: "string \<Rightarrow> bool" where
  "hasHexPrefix s = (case s of c # d # _ \<Rightarrow> c = CHR ''0'' \<and> (d = CHR ''x'' \<or> d = CHR ''X'') | _ \<Rightarrow> False)"

definition parseInt :: "string \<Rightarrow> number" where
  "parseInt inputString =
     (let s = dropWhile isWhiteSpace inputString;
          sign = (case s of c # _ \<Rightarrow> if c = CHR ''-'' then - 1 else 1 | [] \<Rightarrow> (1::int));
          s1 = (case s of c # cs \<Rightarrow> if c = CHR ''+'' \<or> c = CHR ''-'' then cs else s | [] \<Rightarrow> s);
          r = (if hasHexPrefix s1 then 16 else 10);
          s2 = (if hasHexPrefix s1 then drop 2 s1 else s1);
          z = takeWhile (isRadixDigit r) s2
      in if z = [] then None else Some (sign * int (radix_value r z)))"

subsection \<open>Array.prototype.slice\<close>

text \<open>
  \<open>xs.slice(start, end)\<close>: each bound is made an integer (NaN becomes 0), a negative bound
  counts from the end, and both are clamped to \<open>0 .. length\<close>.
\<close>

definition relative_index :: "int \<Rightarrow> number \<Rightarrow> int" where
  "relative_index len a =
     (let r = (case a of None \<Rightarrow> 0 | Some i \<Rightarrow> i)
      in if r < 0 then max (len + r) 0 else min r len)"

definition js_slice :: "'a list \<Rightarrow> number \<Rightarrow> number \<Rightarrow> 'a list" where
  "js_slice xs start end =
     (let len = int (length xs);
          k = relative_index len start;
          final = relative_index len end
      in take (nat (final - k)) (drop (nat k) xs))"

subsection \<open>Strings\<close>

definition lower_char :: "char \<Rightarrow> char" where
  "lower_char c = (let k = (of_char c :: nat) in if 65 \<le> k \<and> k \<le> 90 then char_of (k + 32) else c)"

definition toLowerCase :: "string \<Rightarrow> string" where
  "toLowerCase s = map lower_char s"

fun startsWith :: "string \<Rightarrow> string \<Rightarrow> bool" where
  "startsWith s [] = True"
| "startsWith [] (p # ps) = False"
| "startsWith (c # cs) (p # ps) = (c = p \<and> startsWith cs ps)"

fun str_includes :: "string \<Rightarrow> string \<Rightarrow> bool" where
  "str_includes [] search = (search = [])"
| "str_includes (c # cs) search = (startsWith (c # cs) search \<or> str_includes cs search)"


text \<open>
  A call argument is absent (\<open>undefined\<close>), \<open>null\<close> or a value. An argument that the code
  tests with \<open>Array.isArray\<close> is no value at all, a value that is not an array, or an array.
\<close>

datatype 'a arg = Absent | Null | Given 'a

datatype 'a ids_arg = NoValue | Scalar 'a | Array "'a list"

subsection \<open>Property reads on plain objects\<close>

text \<open>
  The own properties of \<open>Object.prototype\<close>, which every object literal inherits. Each is
  a function, except \<open>__proto__\<close>, which reads as the prototype object itself; none of
  them is nullish, falsy or an array.
\<close>

definition Object_prototype_keys :: "string list" where
  "Object_prototype_keys =
     [''constructor'', ''__defineGetter__'', ''__defineSetter__'', ''hasOwnProperty'',
      ''__lookupGetter__'', ''__lookupSetter__'', ''isPrototypeOf'', ''propertyIsEnumerable'',
      ''toString'', ''valueOf'', ''__proto__'', ''toLocaleString'']"

datatype 'v property = Own 'v | Inherited | Undefined

definition get_property :: "(string \<rightharpoonup> 'v) \<Rightarrow> string \<Rightarrow> 'v property" where
  "get_property obj key =
     (case obj key of
        Some v \<Rightarrow> Own v
      | None \<Rightarrow> if key \<in> set Object_prototype_keys then Inherited else Undefined)"

section \<open>Record store (core/database/index.js)\<close>

datatype error = NotInitialized | TypeError | LoadFailed

text \<open>
  \<open>NotInitialized\<close> is \<open>Error("Database not initialized")\<close>, \<open>TypeError\<close> is a property
  read on \<open>null\<close> or a call of a method that the value does not have, \<open>LoadFailed\<close> is
  whatever \<open>loadData\<close> throws.
  The store is an object with the fields \<open>data\<close> (\<open>null\<close> or an object from collection name
  to array) and \<open>initialized\<close>. It is parametric in the type of a stored record.
\<close>

record 'r database =
  data :: "(string \<rightharpoonup> 'r list) option"
  initialized :: bool

definition new_database :: "'r database" where
  "new_database = \<lparr>data = None, initialized = False\<rparr>"

text \<open>
  \<open>initialize\<close> awaits \<open>loadData\<close>, whose outcome (the loaded object, or a throw) is the
  second argument; on a throw the error is passed on and the store is unchanged.
\<close>

definition initialize :: "'r database \<Rightarrow> error + (string \<rightharpoonup> 'r list) \<Rightarrow> error + 'r database" where
  "initialize db loaded =
     (case loaded of
        Inl e \<Rightarrow> Inl e
      | Inr d \<Rightarrow> Inr (db\<lparr>data := Some d, initialized := True\<rparr>))"

text \<open>
  \<open>find\<close>: an inherited member under the collection name is truthy and has no \<open>filter\<close>,
  so the call of \<open>filter\<close> throws.
\<close>

definition find_db :: "'r database \<Rightarrow> string \<Rightarrow> ('r \<Rightarrow> bool) \<Rightarrow> error + 'r list" where
  "find_db db collection predicate =
     (if \<not> initialized db then Inl NotInitialized
      else case data db of
             None \<Rightarrow> Inl TypeError
           | Some d \<Rightarrow> (case get_property d collection of
                          Undefined \<Rightarrow> Inr []
                        | Inherited \<Rightarrow> Inl TypeError
                        | Own records \<Rightarrow> Inr (filter predicate records)))"

definition findOne :: "'r database \<Rightarrow> string \<Rightarrow> ('r \<Rightarrow> bool) \<Rightarrow> error + 'r option" where
  "findOne db collection predicate =
     (case find_db db collection predicate of
        Inl e \<Rightarrow> Inl e
      | Inr results \<Rightarrow> Inr (case results of [] \<Rightarrow> None | r # _ \<Rightarrow> Some r))"

text \<open>\<open>idField\<close> is the accessor \<open>record[idField]\<close>; every caller leaves it at \<open>_id\<close>.\<close>

definition findById :: "'r database \<Rightarrow> string \<Rightarrow> 'i \<Rightarrow> ('r \<Rightarrow> 'i) \<Rightarrow> error + 'r option" where
  "findById db collection ident idField = findOne db collection (\<lambda>record. idField record = ident)"

definition findByIds :: "'r database \<Rightarrow> string \<Rightarrow> 'i ids_arg \<Rightarrow> ('r \<Rightarrow> 'i) \<Rightarrow> error + 'r list" where
  "findByIds db collection ids idField =
     (case ids of
        Array xs \<Rightarrow> find_db db collection (\<lambda>record. idField record \<in> set xs)
      | _ \<Rightarrow> Inr [])"

text \<open>
  \<open>findAll\<close> returns \<open>this.data[collection] || []\<close>: the array of the collection, the
  empty array, or the inherited member as it is.
\<close>

datatype 'r found = Records "'r list" | InheritedMember

definition findAll :: "'r database \<Rightarrow> string \<Rightarrow> error + 'r found" where
  "findAll db collection =
     (if \<not> initialized db then Inl NotInitialized
      else case data db of
             None \<Rightarrow> Inl TypeError
           | Some d \<Rightarrow> Inr (case get_property d collection of
                              Undefined \<Rightarrow> Records []
                            | Inherited \<Rightarrow> InheritedMember
                            | Own records \<Rightarrow> Records records))"

section \<open>Nodes\<close>

text \<open>The field \<open>_id\<close> is written \<open>id'\<close>. A field that may be missing is an option.\<close>

record node_object =
  id' :: string
  name :: string
  description :: "string option"
  root :: bool
  global :: bool
  colour :: "string option"
  priority :: "int option"
  triggerId :: "string option"
  responses :: "string list option"
  actions :: "string list option"
  parents :: "string list option"
  children :: "string list option"

text \<open>
  A value that is not an array is wrapped into a one-element array. Wrapping no value gives
  \<open>[undefined]\<close>, which no child id equals, as for the empty array.
\<close>

definition findParentNodesByCompositeIds ::
  "node_object database \<Rightarrow> string ids_arg \<Rightarrow> error + node_object list" where
  "findParentNodesByCompositeIds db compositeIds =
     (let ids = (case compositeIds of Array xs \<Rightarrow> xs | Scalar x \<Rightarrow> [x] | NoValue \<Rightarrow> [])
      in find_db db ''nodes''
           (\<lambda>node. case children node of
                      None \<Rightarrow> False
                    | Some cs \<Rightarrow> list_ex (\<lambda>childId. childId \<in> set ids) cs))"

section \<open>Authorisation (core/auth)\<close>

record user =
  userId :: string
  email :: string
  role :: "string option"
  iat :: int
  exp :: int

text \<open>
  Modelled from the spec: the constants \<open>USER_ROLES\<close> of shared/constants, which is not among
  the sources; the role names are those of the spec's table, of the \<open>User\<close> type
  definition and of the token generator.
\<close>

definition USER_ROLES_GUEST :: string where "USER_ROLES_GUEST = ''guest''"
definition USER_ROLES_USER :: string where "USER_ROLES_USER = ''user''"
definition USER_ROLES_ADMIN :: string where "USER_ROLES_ADMIN = ''admin''"

definition roleHierarchy :: "string \<rightharpoonup> int" where
  "roleHierarchy = [USER_ROLES_GUEST \<mapsto> 0, USER_ROLES_USER \<mapsto> 1, USER_ROLES_ADMIN \<mapsto> 2]"

text \<open>
  \<open>roleHierarchy[r] || 0\<close>: a missing key and the level 0 both give 0. The hierarchy is
  read here at its own keys and at names that are no member of the object at all.
\<close>

definition level_or_0 :: "string \<Rightarrow> int" where
  "level_or_0 r = (case roleHierarchy r of None \<Rightarrow> 0 | Some l \<Rightarrow> if l = 0 then 0 else l)"

definition hasRole :: "user option \<Rightarrow> string \<Rightarrow> bool" where
  "hasRole usr requiredRole =
     (case usr of
        None \<Rightarrow> False
      | Some u \<Rightarrow>
          (case role u of
             None \<Rightarrow> False
           | Some r \<Rightarrow>
               if r = [] then False
               else (let userLevel = level_or_0 r;
                         requiredLevel = level_or_0 requiredRole
                     in userLevel \<ge> requiredLevel)))"

definition userPermissions :: "string \<rightharpoonup> string list" where
  "userPermissions =
     [''nodes'' \<mapsto> [''read'', ''write''],
      ''triggers'' \<mapsto> [''read'', ''write''],
      ''actions'' \<mapsto> [''read'', ''write''],
      ''responses'' \<mapsto> [''read'', ''write''],
      ''resourceTemplates'' \<mapsto> [''read'']]"

text \<open>
  The action is absent (\<open>None\<close>, then \<open>read\<close>) or given. In
  \<open>userPermissions[resource]?.includes(action) || false\<close> an inherited member under the
  resource name is not nullish and has no \<open>includes\<close>, so the call throws.
\<close>

definition hasPermission :: "user option \<Rightarrow> string \<Rightarrow> string option \<Rightarrow> error + bool" where
  "hasPermission usr resource action_arg =
     (let action = (case action_arg of None \<Rightarrow> ''read'' | Some a \<Rightarrow> a)
      in case usr of
           None \<Rightarrow> Inr False
         | Some u \<Rightarrow>
             if role u = Some USER_ROLES_ADMIN then Inr True
             else if role u = Some USER_ROLES_USER then
               (case get_property userPermissions resource of
                  Undefined \<Rightarrow> Inr False
                | Inherited \<Rightarrow> Inl TypeError
                | Own allowed \<Rightarrow> Inr (action \<in> set allowed))
             else if role u = Some USER_ROLES_GUEST then Inr (action = ''read'')
             else Inr False)"


section \<open>REST listing of nodes (baseController.js, nodeController.js)\<close>

text \<open>
  The query string of \<open>GET /nodes\<close>: each parameter is absent or a string.
\<close>

record query =
  q_page :: "string option"
  q_limit :: "string option"
  q_name :: "string option"
  q_root :: "string option"
  q_global :: "string option"
  q_colour :: "string option"

record pagination_params =
  page :: int
  limit :: int
  offset :: int

text \<open>\<open>parseInt(undefined)\<close> reads the text \<open>undefined\<close>, which is NaN.\<close>

definition parseInt_param :: "string option \<Rightarrow> number" where
  "parseInt_param v = (case v of None \<Rightarrow> None | Some s \<Rightarrow> parseInt s)"

definition getPaginationParams :: "query \<Rightarrow> pagination_params" where
  "getPaginationParams q =
     (let page = max 1 (num_or (parseInt_param (q_page q)) 1);
          limit = min 100 (max 1 (num_or (parseInt_param (q_limit q)) 10));
          offset = (page - 1) * limit
      in \<lparr>page = page, limit = limit, offset = offset\<rparr>)"

record pagination =
  p_page :: int
  p_limit :: int
  p_total :: int
  p_totalPages :: int
  p_hasNextPage :: bool
  p_hasPreviousPage :: bool

record 'a paginated_response =
  r_data :: "'a list"
  r_pagination :: pagination

text \<open>
  \<open>Math.ceil(total / limit)\<close> for a positive \<open>limit\<close>, which is what
  \<open>getPaginationParams\<close> supplies.
\<close>

definition createPaginatedResponse :: "'a list \<Rightarrow> int \<Rightarrow> int \<Rightarrow> int \<Rightarrow> 'a paginated_response" where
  "createPaginatedResponse dat pg lim total' =
     (let totalPages = - ((- total') div lim)
      in \<lparr>r_data = dat,
          r_pagination = \<lparr>p_page = pg, p_limit = lim, p_total = total', p_totalPages = totalPages,
                          p_hasNextPage = pg < totalPages, p_hasPreviousPage = pg > 1\<rparr>\<rparr>)"

text \<open>A string is truthy when it is present and not empty.\<close>

definition truthy :: "string option \<Rightarrow> bool" where
  "truthy v = (case v of None \<Rightarrow> False | Some s \<Rightarrow> s \<noteq> [])"

text \<open>The four filters of \<open>NodeController.getNodes\<close>, in the order of the source.\<close>

definition rest_filters :: "query \<Rightarrow> node_object list \<Rightarrow> node_object list" where
  "rest_filters q nodes0 =
     (let nodes1 = (if truthy (q_name q)
                    then filter (\<lambda>node. str_includes (toLowerCase (name node)) (toLowerCase (the (q_name q)))) nodes0
                    else nodes0);
          nodes2 = (case q_root q of
                      None \<Rightarrow> nodes1
                    | Some r \<Rightarrow> filter (\<lambda>node. root node = (r = ''true'')) nodes1);
          nodes3 = (case q_global q of
                      None \<Rightarrow> nodes2
                    | Some g \<Rightarrow> filter (\<lambda>node. global node = (g = ''true'')) nodes2);
          nodes4 = (if truthy (q_colour q)
                    then filter (\<lambda>node. colour node = q_colour q) nodes3
                    else nodes3)
      in nodes4)"

text \<open>The slice and the response of \<open>NodeController.getNodes\<close>, over the filtered nodes.\<close>

definition rest_page :: "pagination_params \<Rightarrow> 'a list \<Rightarrow> 'a paginated_response" where
  "rest_page pp nodes =
     (let total' = int (length nodes);
          paginatedNodes = js_slice nodes (Some (offset pp)) (Some (offset pp + limit pp))
      in createPaginatedResponse paginatedNodes (page pp) (limit pp) total')"

text \<open>
  The listing reads the fixed collection \<open>nodes\<close>. A value that is no array has neither
  \<open>filter\<close> nor \<open>slice\<close>, so the listing would throw on it.
\<close>

definition NodeController_getNodes ::
  "node_object database \<Rightarrow> query \<Rightarrow> error + node_object paginated_response" where
  "NodeController_getNodes db q =
     (let pp = getPaginationParams q
      in case findAll db ''nodes'' of
           Inl e \<Rightarrow> Inl e
         | Inr InheritedMember \<Rightarrow> Inl TypeError
         | Inr (Records nodes) \<Rightarrow> Inr (rest_page pp (rest_filters q nodes)))"

section \<open>GraphQL listing (graphql/resolvers)\<close>

record node_filter =
  f_name :: "string option"
  f_root :: "bool arg"
  f_global :: "bool arg"
  f_colour :: "string option"

record args =
  first :: "int arg"
  after :: "string arg"
  filter_arg :: "node_filter arg"

record 'a edge =
  node :: 'a
  cursor :: string

record page_info =
  hasNextPage :: bool
  hasPreviousPage :: bool
  startCursor :: "string option"
  endCursor :: "string option"

record 'a connection =
  edges :: "'a edge list"
  pageInfo :: page_info
  totalCount :: int

text \<open>
  \<open>first = 10\<close> in the destructuring applies to an absent argument only; a \<open>null\<close> stays
  and counts as 0 in \<open>startIndex + first\<close>.
\<close>

definition first_number :: "int arg \<Rightarrow> int" where
  "first_number f = (case f of Absent \<Rightarrow> 10 | Null \<Rightarrow> 0 | Given n \<Rightarrow> n)"

text \<open>\<open>after ? parseInt(after) : 0\<close>\<close>

definition startIndex_of :: "string arg \<Rightarrow> number" where
  "startIndex_of a = (case a of Given s \<Rightarrow> if s = [] then Some 0 else parseInt s | _ \<Rightarrow> Some 0)"

text \<open>
  The pagination lines, the same in \<open>getNodes\<close>, \<open>getTriggers\<close>, \<open>getActions\<close>,
  \<open>getResponses\<close> and \<open>getResourceTemplates\<close>, over the filtered sequence.
\<close>

definition cursor_page :: "int arg \<Rightarrow> string arg \<Rightarrow> 'a list \<Rightarrow> 'a connection" where
  "cursor_page first_arg after_arg nodes =
     (let startIndex = startIndex_of after_arg;
          endIndex = num_add startIndex (Some (first_number first_arg));
          paginatedNodes = js_slice nodes startIndex endIndex
      in \<lparr>edges = map (\<lambda>(nd, index). \<lparr>node = nd, cursor = toString (num_add startIndex (Some (int index)))\<rparr>)
                       (zip paginatedNodes [0 ..< length paginatedNodes]),
          pageInfo = \<lparr>hasNextPage = num_lt endIndex (Some (int (length nodes))),
                      hasPreviousPage = num_gt startIndex (Some 0),
                      startCursor = (if length paginatedNodes > 0 then Some (toString startIndex) else None),
                      endCursor = (if length paginatedNodes > 0
                                   then Some (toString (num_add endIndex (Some (- 1)))) else None)\<rparr>,
          totalCount = int (length nodes)\<rparr>)"

text \<open>
  The filters of \<open>NodeResolvers.getNodes\<close>. \<open>filter.root !== undefined\<close> lets a \<open>null\<close>
  through, which no boolean field equals.
\<close>

definition graphql_filters :: "node_filter \<Rightarrow> node_object list \<Rightarrow> node_object list" where
  "graphql_filters f nodes0 =
     (let nodes1 = (if truthy (f_name f)
                    then filter (\<lambda>node. str_includes (toLowerCase (name node)) (toLowerCase (the (f_name f)))) nodes0
                    else nodes0);
          nodes2 = (case f_root f of
                      Absent \<Rightarrow> nodes1
                    | Null \<Rightarrow> []
                    | Given b \<Rightarrow> filter (\<lambda>node. root node = b) nodes1);
          nodes3 = (case f_global f of
                      Absent \<Rightarrow> nodes2
                    | Null \<Rightarrow> []
                    | Given b \<Rightarrow> filter (\<lambda>node. global node = b) nodes2);
          nodes4 = (if truthy (f_colour f)
                    then filter (\<lambda>node. colour node = f_colour f) nodes3
                    else nodes3)
      in nodes4)"

definition no_filter :: node_filter where
  "no_filter = \<lparr>f_name = None, f_root = Absent, f_global = Absent, f_colour = None\<rparr>"

text \<open>
  \<open>filter = {}\<close> applies to an absent argument only; reading \<open>filter.name\<close> of a \<open>null\<close>
  throws, after the store has been read. A value read from the store that is no array
  makes the listing throw as well, at \<open>filter.name\<close>, at \<open>filter\<close> or at \<open>slice\<close>.
\<close>

definition NodeResolvers_getNodes ::
  "node_object database \<Rightarrow> args \<Rightarrow> error + node_object connection" where
  "NodeResolvers_getNodes db a =
     (case findAll db ''nodes'' of
        Inl e \<Rightarrow> Inl e
      | Inr InheritedMember \<Rightarrow> Inl TypeError
      | Inr (Records nodes) \<Rightarrow>
          (case filter_arg a of
             Null \<Rightarrow> Inl TypeError
           | Absent \<Rightarrow> Inr (cursor_page (first a) (after a) (graphql_filters no_filter nodes))
           | Given f \<Rightarrow> Inr (cursor_page (first a) (after a) (graphql_filters f nodes))))"

section \<open>The specification's tables and orders\<close>

text \<open>
  These follow the wording of the specification, not the code: the three roles and their
  levels \<open>guest(0) < user(1) < admin(2)\<close>, the five collections, the permission table, the
  records of a collection in store order, and a node whose \<open>children\<close> contains at least
  one of the given composite ids.
\<close>

definition ROLES :: "string list" where
  "ROLES = [USER_ROLES_GUEST, USER_ROLES_USER, USER_ROLES_ADMIN]"

definition role_level :: "string \<Rightarrow> nat" where
  "role_level r = (if r = ''admin'' then 2 else if r = ''user'' then 1 else 0)"

definition known_resources :: "string list" where
  "known_resources = [''nodes'', ''triggers'', ''actions'', ''responses'', ''resourceTemplates'']"


definition stored :: "(string \<rightharpoonup> 'r list) \<Rightarrow> string \<Rightarrow> 'r list" where
  "stored d collection = (case d collection of None \<Rightarrow> [] | Some records \<Rightarrow> records)"

definition references :: "string list \<Rightarrow> node_object \<Rightarrow> bool" where
  "references ids n = (case children n of None \<Rightarrow> False | Some cs \<Rightarrow> set cs \<inter> set ids \<noteq> {})"

section \<open>Example data\<close>

definition mk_node :: "string \<Rightarrow> string \<Rightarrow> bool \<Rightarrow> string list option \<Rightarrow> node_object" where
  "mk_node i nm rt cs =
     \<lparr>id' = i, name = nm, description = None, root = rt, global = False, colour = None,
      priority = None, triggerId = None, responses = None, actions = None, parents = None,
      children = cs\<rparr>"

definition mk_user :: "string \<Rightarrow> user" where
  "mk_user r = \<lparr>userId = ''u1'', email = ''u1@example.com'', role = Some r, iat = 0, exp = 0\<rparr>"

definition mk_db :: "node_object list \<Rightarrow> node_object database" where
  "mk_db nodes = \<lparr>data = Some [''nodes'' \<mapsto> nodes], initialized = True\<rparr>"

definition example_nodes :: "node_object list" where
  "example_nodes =
     [mk_node ''n1'' ''Welcome'' True (Some [''c1'', ''c2'']),
      mk_node ''n2'' ''Goodbye'' False None,
      mk_node ''n3'' ''Help'' False (Some [''c3'']),
      mk_node ''n4'' ''Menu'' True (Some [''c2'', ''c4''])]"

definition plain_query :: query where
  "plain_query = \<lparr>q_page = None, q_limit = None, q_name = None, q_root = None, q_global = None, q_colour = None\<rparr>"

definition three_nodes :: "node_object list" where
  "three_nodes = [mk_node ''n1'' ''Welcome'' True None, mk_node ''n2'' ''Goodbye'' False None,
                  mk_node ''n3'' ''Help'' False None]"

section \<open>Facts about parseInt and toString\<close>














section \<open>Roles and permissions\<close>

lemmas role_defs = USER_ROLES_GUEST_def USER_ROLES_USER_def USER_ROLES_ADMIN_def

lemma level_or_0_known:
  "level_or_0 ''guest'' = 0" "level_or_0 ''user'' = 1" "level_or_0 ''admin'' = 2"
  by (simp_all add: level_or_0_def roleHierarchy_def role_defs)

lemma known_role_cases:
  assumes "x \<in> set ROLES"
  obtains "x = ''guest''" | "x = ''user''" | "x = ''admin''"
  using assms by (auto simp: ROLES_def role_defs)

lemma level_or_0_role_level: "x \<in> set ROLES \<Longrightarrow> level_or_0 x = int (role_level x) \<and> x \<noteq> []"
  by (erule known_role_cases) (simp_all add: level_or_0_known role_level_def)

lemma hasRole_known:
  assumes "role u = Some x" and "x \<in> set ROLES" and "y \<in> set ROLES"
  shows "hasRole (Some u) y \<longleftrightarrow> role_level y \<le> role_level x"
proof -
  from assms(2) have x: "level_or_0 x = int (role_level x)" "x \<noteq> []"
    by (simp_all add: level_or_0_role_level)
  from assms(3) have y: "level_or_0 y = int (role_level y)"
    by (simp add: level_or_0_role_level)
  from assms(1) x y show ?thesis
    by (simp add: hasRole_def Let_def)
qed

text \<open>
  Claim C9. For a user whose role \<open>x\<close> is one of guest, user, admin and a required role
  \<open>y\<close> among the same three, \<open>hasRole\<close> holds exactly when the level of \<open>y\<close> is at
  most the level of \<open>x\<close> in the order \<open>guest(0) < user(1) < admin(2)\<close>. In particular
  \<open>hasRole\<close> of \<open>x\<close> against \<open>x\<close> holds, an admin satisfies guest, and a guest does not
  satisfy admin.
\<close>

theorem hasRole_level:
  assumes "role u = Some x" and "x \<in> set ROLES" and "y \<in> set ROLES"
  shows "(hasRole (Some u) y \<longleftrightarrow> role_level y \<le> role_level x)
       \<and> hasRole (Some u) x
       \<and> (x = USER_ROLES_ADMIN \<longrightarrow> hasRole (Some u) USER_ROLES_GUEST)
       \<and> (x = USER_ROLES_GUEST \<longrightarrow> \<not> hasRole (Some u) USER_ROLES_ADMIN)"
proof -
  have g: "USER_ROLES_GUEST \<in> set ROLES" and a: "USER_ROLES_ADMIN \<in> set ROLES"
    by (simp_all add: ROLES_def)
  have lv: "role_level USER_ROLES_GUEST = 0" "role_level USER_ROLES_ADMIN = 2"
    by (simp_all add: role_level_def role_defs)
  have 1: "hasRole (Some u) y \<longleftrightarrow> role_level y \<le> role_level x"
    using assms by (rule hasRole_known)
  have 2: "hasRole (Some u) x"
    using assms(1,2) by (simp add: hasRole_known)
  have 3: "hasRole (Some u) USER_ROLES_GUEST"
    using assms(1,2) g by (simp add: hasRole_known lv)
  have 4: "x = USER_ROLES_GUEST \<Longrightarrow> \<not> hasRole (Some u) USER_ROLES_ADMIN"
    using assms(1,2) a by (simp add: hasRole_known lv)
  from 1 2 3 4 show ?thesis by blast
qed

text \<open>
  The hypotheses of C9 hold for an admin checked against guest.
\<close>

theorem hasRole_level_witness:
  "role (mk_user ''admin'') = Some ''admin'' \<and> ''admin'' \<in> set ROLES \<and> ''guest'' \<in> set ROLES
   \<and> hasRole (Some (mk_user ''admin'')) ''guest''
   \<and> role_level ''guest'' \<le> role_level ''admin''
   \<and> hasRole (Some (mk_user ''admin'')) ''admin''"
  using hasRole_level [of "mk_user ''admin''" "''admin''" "''guest''"]
  by (simp add: mk_user_def ROLES_def role_defs role_level_def)

lemma known_not_inherited: "resource \<in> set known_resources \<Longrightarrow> resource \<notin> set Object_prototype_keys"
  by (auto simp: known_resources_def Object_prototype_keys_def)








lemma hasPermission_default_action:
  "hasPermission usr resource None = hasPermission usr resource (Some ''read'')"
  by (simp add: hasPermission_def)

lemma hasPermission_no_role:
  "hasPermission None resource act = Inr False"
  "role u = None \<Longrightarrow> hasPermission (Some u) resource act = Inr False"
  "role u = Some r \<Longrightarrow> r \<notin> set ROLES \<Longrightarrow> hasPermission (Some u) resource act = Inr False"
  by (auto simp: hasPermission_def ROLES_def Let_def)





section \<open>The record store\<close>

lemma find_db_uninitialized: "\<not> initialized db \<Longrightarrow> find_db db collection predicate = Inl NotInitialized"
  by (simp add: find_db_def)

lemma find_db_initialized:
  assumes "initialized db" and "data db = Some d"
  shows "find_db db collection predicate =
           (if d collection = None \<and> collection \<in> set Object_prototype_keys then Inl TypeError
            else Inr (filter predicate (stored d collection)))"
  using assms by (simp add: find_db_def get_property_def stored_def split: option.splits)

lemma find_db_collection:
  assumes "initialized db" and "data db = Some d" and "collection \<in> set known_resources"
  shows "find_db db collection predicate = Inr (filter predicate (stored d collection))"
  using assms by (simp add: find_db_initialized known_not_inherited)

lemma findAll_nodes:
  "initialized db \<Longrightarrow> data db = Some d \<Longrightarrow> findAll db ''nodes'' = Inr (Records (stored d ''nodes''))"
  by (simp add: findAll_def get_property_def stored_def Object_prototype_keys_def split: option.splits)

lemma initialize_ok:
  "initialize db (Inr d) = Inr db' \<Longrightarrow> initialized db' \<and> data db' = Some d"
  by (auto simp: initialize_def)

lemma initialize_failed: "initialize db (Inl e) = Inl e"
  by (simp add: initialize_def)

text \<open>
  Claim C4 as stated fails for \<open>findByIds\<close>: its guard on \<open>ids\<close> comes before the call
  of \<open>find\<close>, so on a store that was never initialised a call without an array of ids
  returns the empty list.
\<close>

theorem findByIds_uninitialized_counterexample:
  "\<not> initialized (new_database :: node_object database)
   \<and> findByIds (new_database :: node_object database) ''nodes'' NoValue id' = Inr []"
  by (simp add: new_database_def findByIds_def)

text \<open>
  Claim C4, amended. On a store whose \<open>initialize\<close> has not completed, \<open>findAll\<close>,
  \<open>find\<close>, \<open>findOne\<close>, \<open>findById\<close> and \<open>findParentNodesByCompositeIds\<close> fail with the
  not-initialised error for every collection name and every argument, and so does
  \<open>findByIds\<close> when its \<open>ids\<close> is an array. When \<open>ids\<close> is missing or is not an array,
  \<open>findByIds\<close> returns the empty list on every store, initialised or not.
\<close>

theorem find_before_initialize:
  "(\<not> initialized db \<longrightarrow>
      findAll db collection = Inl NotInitialized
    \<and> find_db db collection predicate = Inl NotInitialized
    \<and> findOne db collection predicate = Inl NotInitialized
    \<and> findById db collection ident idField = Inl NotInitialized
    \<and> findByIds db collection (Array ids) idField = Inl NotInitialized)
 \<and> (\<not> initialized ndb \<longrightarrow> findParentNodesByCompositeIds ndb compositeIds = Inl NotInitialized)
 \<and> findByIds db collection NoValue idField = Inr []
 \<and> findByIds db collection (Scalar x) idField = Inr []"
  by (simp add: findAll_def find_db_uninitialized findOne_def findById_def findByIds_def
      findParentNodesByCompositeIds_def Let_def)

text \<open>
  The freshly constructed store is not initialised, and the amended C4 applies to it;
  without an array of ids \<open>findByIds\<close> returns the empty list on it and on an
  initialised store alike.
\<close>

theorem find_before_initialize_witness:
  "\<not> initialized (new_database :: node_object database)
   \<and> findAll (new_database :: node_object database) ''nodes'' = Inl NotInitialized
   \<and> findById (new_database :: node_object database) ''nodes'' ''n1'' id' = Inl NotInitialized
   \<and> findByIds (new_database :: node_object database) ''nodes'' (Array [''n1'']) id' = Inl NotInitialized
   \<and> findParentNodesByCompositeIds new_database (Array [''c1'']) = Inl NotInitialized
   \<and> findByIds (new_database :: node_object database) ''nodes'' NoValue id' = Inr []
   \<and> initialized (mk_db example_nodes)
   \<and> findByIds (mk_db example_nodes) ''nodes'' NoValue id' = Inr []
   \<and> findByIds (mk_db example_nodes) ''nodes'' (Scalar ''n1'') id' = Inr []"
  using find_before_initialize [of "new_database :: node_object database" "''nodes''" "\<lambda>r. True"
      "''n1''" id' "[''n1'']" new_database "Array [''c1'']" "''n1''"]
    find_before_initialize [of "mk_db example_nodes" "''nodes''" "\<lambda>r. True"
      "''n1''" id' "[''n1'']" new_database "Array [''c1'']" "''n1''"]
  by (simp add: new_database_def mk_db_def)

lemma list_ex_member: "list_ex (\<lambda>c. c \<in> set ids) cs \<longleftrightarrow> set cs \<inter> set ids \<noteq> {}"
  by (auto simp: list_ex_iff)

lemma parent_predicate:
  "(case children n of None \<Rightarrow> False | Some cs \<Rightarrow> list_ex (\<lambda>childId. childId \<in> set ids) cs) = references ids n"
  by (simp add: references_def list_ex_member split: option.splits)

lemma nodes_known: "''nodes'' \<in> set known_resources"
  by (simp add: known_resources_def)

text \<open>
  Claim C7. On an initialised store, \<open>findParentNodesByCompositeIds\<close> of a list of
  composite ids returns exactly the nodes whose \<open>children\<close> contains at least one of the
  ids, in store order; it returns the empty list when no node references any of them; a
  node without \<open>children\<close> is not among the results.
\<close>

theorem findParents_exact:
  assumes "initialized db" and "data db = Some d"
  shows "findParentNodesByCompositeIds db (Array ids) = Inr (filter (references ids) (stored d ''nodes''))
       \<and> ((\<forall>n \<in> set (stored d ''nodes''). \<not> references ids n) \<longrightarrow>
             findParentNodesByCompositeIds db (Array ids) = Inr [])
       \<and> (\<forall>n. children n = None \<longrightarrow> n \<notin> set (filter (references ids) (stored d ''nodes'')))"
proof -
  have 1: "findParentNodesByCompositeIds db (Array ids) = Inr (filter (references ids) (stored d ''nodes''))"
    using assms nodes_known
    by (simp add: findParentNodesByCompositeIds_def find_db_collection parent_predicate)
  have 2: "(\<forall>n \<in> set (stored d ''nodes''). \<not> references ids n) \<Longrightarrow>
             filter (references ids) (stored d ''nodes'') = []"
    by (simp add: filter_empty_conv)
  have 3: "\<And>n. children n = None \<Longrightarrow> \<not> references ids n"
    by (simp add: references_def)
  from 1 2 3 show ?thesis by auto
qed

text \<open>
  C7 on four nodes: \<open>c2\<close> is a child of the first and the fourth, \<open>c9\<close> of none.
\<close>

theorem findParents_exact_witness:
  "initialized (mk_db example_nodes) \<and> data (mk_db example_nodes) = Some [''nodes'' \<mapsto> example_nodes]
   \<and> findParentNodesByCompositeIds (mk_db example_nodes) (Array [''c2'', ''c9''])
       = Inr [mk_node ''n1'' ''Welcome'' True (Some [''c1'', ''c2'']), mk_node ''n4'' ''Menu'' True (Some [''c2'', ''c4''])]
   \<and> findParentNodesByCompositeIds (mk_db example_nodes) (Array [''c9'']) = Inr []"
  using findParents_exact [of "mk_db example_nodes" "[''nodes'' \<mapsto> example_nodes]" "[''c2'', ''c9'']"]
        findParents_exact [of "mk_db example_nodes" "[''nodes'' \<mapsto> example_nodes]" "[''c9'']"]
  by (simp add: mk_db_def example_nodes_def stored_def references_def mk_node_def)

text \<open>
  A name that is no collection of the store gives the empty list, unless it is inherited
  from \<open>Object.prototype\<close>: then \<open>find\<close> throws.
\<close>

lemma findByIds_other_names:
  assumes "initialized db" and "data db = Some d" and "d collection = None"
  shows "findByIds db collection (Array ids) idField =
           (if collection \<in> set Object_prototype_keys then Inl TypeError else Inr [])"
  using assms by (simp add: findByIds_def find_db_initialized stored_def)

text \<open>
  Claim C8. On an initialised store and for each of the five collections, \<open>findByIds\<close>
  of a list of ids returns exactly the records of the collection whose id is in the list,
  in store order: the result is the same for any other list with the same members, and an
  id that matches no record adds nothing and raises nothing.
\<close>

theorem findByIds_exact:
  assumes "initialized db" and "data db = Some d" and "collection \<in> set known_resources"
  shows "findByIds db collection (Array ids) idField
           = Inr (filter (\<lambda>record. idField record \<in> set ids) (stored d collection))
       \<and> (\<forall>ids'. set ids' = set ids \<longrightarrow>
             findByIds db collection (Array ids') idField = findByIds db collection (Array ids) idField)"
  using assms by (simp add: findByIds_def find_db_collection)

text \<open>
  C8 on four nodes: the ids \<open>n3, zz, n1\<close> select the first and the third node, in that
  order.
\<close>

theorem findByIds_exact_witness:
  "initialized (mk_db example_nodes) \<and> data (mk_db example_nodes) = Some [''nodes'' \<mapsto> example_nodes]
   \<and> ''nodes'' \<in> set known_resources
   \<and> findByIds (mk_db example_nodes) ''nodes'' (Array [''n3'', ''zz'', ''n1'']) id'
       = Inr [mk_node ''n1'' ''Welcome'' True (Some [''c1'', ''c2'']), mk_node ''n3'' ''Help'' False (Some [''c3''])]"
  using findByIds_exact [of "mk_db example_nodes" "[''nodes'' \<mapsto> example_nodes]" "''nodes''" "[''n3'', ''zz'', ''n1'']" id']
  by (simp add: mk_db_def example_nodes_def stored_def mk_node_def known_resources_def)


section \<open>REST filters\<close>

lemma rest_filters_root:
  assumes "q_root q = Some v"
  shows "rest_filters q nodes = filter (\<lambda>n. root n = (v = ''true'')) (rest_filters (q\<lparr>q_root := None\<rparr>) nodes)"
  using assms by (auto simp: rest_filters_def Let_def split: option.splits intro!: filter_cong)

lemma rest_filters_global:
  assumes "q_global q = Some v"
  shows "rest_filters q nodes = filter (\<lambda>n. global n = (v = ''true'')) (rest_filters (q\<lparr>q_global := None\<rparr>) nodes)"
  using assms by (auto simp: rest_filters_def Let_def split: option.splits intro!: filter_cong)

text \<open>
  Claim C10. In the REST listing, a \<open>root\<close> (or \<open>global\<close>) query value other than exactly
  \<open>true\<close> selects, among the nodes the other filters keep, those whose \<open>root\<close>
  (\<open>global\<close>) field is false; the request is not rejected: on an initialised store the
  listing returns its page over the filtered nodes.
\<close>

theorem rest_boolean_filters:
  assumes "v \<noteq> ''true''"
  shows "(q_root q = Some v \<longrightarrow>
            rest_filters q nodes = filter (\<lambda>n. \<not> root n) (rest_filters (q\<lparr>q_root := None\<rparr>) nodes))
       \<and> (q_global q = Some v \<longrightarrow>
            rest_filters q nodes = filter (\<lambda>n. \<not> global n) (rest_filters (q\<lparr>q_global := None\<rparr>) nodes))
       \<and> (initialized db \<and> data db = Some d \<longrightarrow>
            NodeController_getNodes db q
              = Inr (rest_page (getPaginationParams q) (rest_filters q (stored d ''nodes''))))"
  using assms
  by (simp add: rest_filters_root rest_filters_global NodeController_getNodes_def findAll_nodes)

text \<open>
  C10 for the query value \<open>True\<close> on both filters: the two nodes with \<open>root = false\<close>
  are returned.
\<close>

theorem rest_boolean_filters_witness:
  "''True'' \<noteq> ''true''
   \<and> q_root (plain_query\<lparr>q_root := Some ''True'', q_global := Some ''True''\<rparr>) = Some ''True''
   \<and> q_global (plain_query\<lparr>q_root := Some ''True'', q_global := Some ''True''\<rparr>) = Some ''True''
   \<and> initialized (mk_db example_nodes)
   \<and> data (mk_db example_nodes) = Some [''nodes'' \<mapsto> example_nodes]
   \<and> rest_filters (plain_query\<lparr>q_root := Some ''True'', q_global := Some ''True''\<rparr>) example_nodes
       = [mk_node ''n2'' ''Goodbye'' False None, mk_node ''n3'' ''Help'' False (Some [''c3''])]
   \<and> r_data (projr (NodeController_getNodes (mk_db example_nodes)
                        (plain_query\<lparr>q_root := Some ''True'', q_global := Some ''True''\<rparr>)))
       = [mk_node ''n2'' ''Goodbye'' False None, mk_node ''n3'' ''Help'' False (Some [''c3''])]"
  using rest_boolean_filters [of "''True''" "plain_query\<lparr>q_root := Some ''True'', q_global := Some ''True''\<rparr>"
      example_nodes "mk_db example_nodes" "[''nodes'' \<mapsto> example_nodes]"]
  apply (simp add: plain_query_def mk_db_def)
  apply (simp add: rest_filters_def example_nodes_def mk_node_def truthy_def stored_def rest_page_def
      getPaginationParams_def parseInt_param_def num_or_def createPaginatedResponse_def js_slice_def
      relative_index_def Let_def)
  done

section \<open>Pagination\<close>

lemma cursor_page_nodes:
  "map node (edges (cursor_page f a nodes))
     = js_slice nodes (startIndex_of a) (num_add (startIndex_of a) (Some (first_number f)))"
proof -
  have "map node (map (\<lambda>(nd, index). \<lparr>node = nd, cursor = g index\<rparr>) (zip xs [0 ..< length xs])) = xs"
    for xs :: "'a list" and g :: "nat \<Rightarrow> string"
    by (simp add: case_prod_beta comp_def map_fst_zip[unfolded comp_def])
  then show ?thesis by (simp add: cursor_page_def Let_def)
qed














lemma parseInt_empty: "parseInt [] = None"
  by (simp add: parseInt_def hasHexPrefix_def)


lemma parseInt_abc: "parseInt ''xyz'' = None"
  by (simp add: parseInt_def isWhiteSpace_def hasHexPrefix_def isRadixDigit_def digit_value_def radix_value_def)

lemma parseInt_m1: "parseInt ''-1'' = Some (- 1)"
  by (simp add: parseInt_def isWhiteSpace_def hasHexPrefix_def isRadixDigit_def digit_value_def radix_value_def)


lemma getNodes_initialized:
  assumes "initialized db" and "data db = Some d"
  shows "NodeResolvers_getNodes db ar =
           (case filter_arg ar of
              Null \<Rightarrow> Inl TypeError
            | Absent \<Rightarrow> Inr (cursor_page (first ar) (after ar) (graphql_filters no_filter (stored d ''nodes'')))
            | Given flt \<Rightarrow> Inr (cursor_page (first ar) (after ar) (graphql_filters flt (stored d ''nodes''))))"
  using assms by (simp add: NodeResolvers_getNodes_def findAll_nodes)

lemma graphql_no_filter: "graphql_filters no_filter nodes = nodes"
  by (simp add: graphql_filters_def no_filter_def truthy_def)

text \<open>
  What holds of the cursors for every request: the cursor of each returned item is
  \<open>startIndex\<close> plus its position in the page; both page cursors are null exactly when the
  page is empty; and on a page that lies within the sequence and is full, \<open>startCursor\<close>
  and \<open>endCursor\<close> are the cursors of the first and of the last returned item.
\<close>

lemma edge_cursor:
  "i < length (edges (cursor_page f a nodes)) \<Longrightarrow>
   cursor (edges (cursor_page f a nodes) ! i) = toString (num_add (startIndex_of a) (Some (int i)))"
  by (simp add: cursor_page_def Let_def)

lemma js_slice_full:
  assumes "0 \<le> s" and "0 \<le> n" and "s + n \<le> int (length xs)"
  shows "js_slice xs (Some s) (Some (s + n)) = take (nat n) (drop (nat s) xs)"
  using assms by (simp add: js_slice_def relative_index_def Let_def min_def)

lemma cursors_full_page:
  assumes "startIndex_of a = Some s" and "0 \<le> s" and "0 < first_number f"
    and "s + first_number f \<le> int (length nodes)"
  shows "length (edges (cursor_page f a nodes)) = nat (first_number f)"
    and "startCursor (pageInfo (cursor_page f a nodes)) = Some (cursor (hd (edges (cursor_page f a nodes))))"
    and "endCursor (pageInfo (cursor_page f a nodes)) = Some (cursor (last (edges (cursor_page f a nodes))))"
proof -
  let ?c = "cursor_page f a nodes" and ?n = "first_number f"
  have sl: "js_slice nodes (startIndex_of a) (num_add (startIndex_of a) (Some ?n)) = take (nat ?n) (drop (nat s) nodes)"
    using assms by (simp add: num_add_def js_slice_full)
  have len_sl: "length (take (nat ?n) (drop (nat s) nodes)) = nat ?n"
    using assms by simp
  show len: "length (edges ?c) = nat ?n"
    using sl len_sl by (simp add: cursor_page_def Let_def)
  then have ne: "edges ?c \<noteq> []" using assms(3) by auto
  have "cursor (hd (edges ?c)) = toString (Some s)"
    using edge_cursor [of 0 f a nodes] ne assms(1) by (simp add: hd_conv_nth num_add_def)
  moreover have "startCursor (pageInfo ?c) = Some (toString (Some s))"
    using sl len_sl assms by (simp add: cursor_page_def Let_def)
  ultimately show "startCursor (pageInfo ?c) = Some (cursor (hd (edges ?c)))" by simp
  have "cursor (last (edges ?c)) = toString (Some (s + ?n - 1))"
    using edge_cursor [of "nat ?n - 1" f a nodes] ne len assms(1,3)
    by (simp add: last_conv_nth num_add_def algebra_simps)
  moreover have "endCursor (pageInfo ?c) = Some (toString (Some (s + ?n - 1)))"
    using sl len_sl assms by (simp add: cursor_page_def Let_def num_add_def)
  ultimately show "endCursor (pageInfo ?c) = Some (cursor (last (edges ?c)))" by simp
qed

text \<open>
  Claim C2 at a failing input: three nodes, \<open>first = 10\<close>, no \<open>after\<close>. The three nodes
  are returned with the cursors 0, 1 and 2, and \<open>endCursor\<close> is 9, not the index 2 of the
  last returned node.
\<close>

theorem endCursor_past_last_item:
  "NodeResolvers_getNodes (mk_db three_nodes) \<lparr>first = Given 10, after = Absent, filter_arg = Absent\<rparr>
     = Inr (cursor_page (Given 10) Absent three_nodes)
   \<and> map node (edges (cursor_page (Given 10) Absent three_nodes)) = three_nodes
   \<and> map cursor (edges (cursor_page (Given 10) Absent three_nodes)) = [''0'', ''1'', ''2'']
   \<and> startCursor (pageInfo (cursor_page (Given 10) Absent three_nodes)) = Some ''0''
   \<and> endCursor (pageInfo (cursor_page (Given 10) Absent three_nodes)) = Some ''9''"
proof -
  have "initialized (mk_db three_nodes)" and "data (mk_db three_nodes) = Some [''nodes'' \<mapsto> three_nodes]"
    by (simp_all add: mk_db_def)
  then have 1: "NodeResolvers_getNodes (mk_db three_nodes) \<lparr>first = Given 10, after = Absent, filter_arg = Absent\<rparr>
     = Inr (cursor_page (Given 10) Absent three_nodes)"
    by (simp add: getNodes_initialized graphql_no_filter stored_def)
  have 2: "map node (edges (cursor_page (Given 10) Absent three_nodes)) = three_nodes"
    by code_simp
  have 3: "map cursor (edges (cursor_page (Given 10) Absent three_nodes)) = [''0'', ''1'', ''2'']"
    by code_simp
  have 4: "startCursor (pageInfo (cursor_page (Given 10) Absent three_nodes)) = Some ''0''"
    by code_simp
  have 5: "endCursor (pageInfo (cursor_page (Given 10) Absent three_nodes)) = Some ''9''"
    by code_simp
  from 1 2 3 4 5 show ?thesis by blast
qed

lemma cursors_null_iff_empty:
  "startCursor (pageInfo (cursor_page f a nodes)) = None \<longleftrightarrow> edges (cursor_page f a nodes) = []"
  "endCursor (pageInfo (cursor_page f a nodes)) = None \<longleftrightarrow> edges (cursor_page f a nodes) = []"
  by (simp_all add: cursor_page_def Let_def)

lemma js_slice_NaN: "js_slice xs None None = []"
  by (simp add: js_slice_def relative_index_def)

lemma cursor_page_NaN:
  assumes "startIndex_of a = None"
  shows "cursor_page f a nodes =
           \<lparr>edges = [],
            pageInfo = \<lparr>hasNextPage = False, hasPreviousPage = False, startCursor = None, endCursor = None\<rparr>,
            totalCount = int (length nodes)\<rparr>"
  using assms by (simp add: cursor_page_def Let_def num_add_def num_lt_def num_gt_def js_slice_NaN)

lemma getPaginationParams_default_page:
  assumes "parseInt_param (q_page q) = None \<or> (\<exists>n. parseInt_param (q_page q) = Some n \<and> n \<le> 0)"
  shows "getPaginationParams q = getPaginationParams (q\<lparr>q_page := None\<rparr>)"
    and "page (getPaginationParams q) = 1"
  using assms by (auto simp: getPaginationParams_def Let_def num_or_def parseInt_param_def)

text \<open>
  Claim C3 as stated fails in GraphQL. Over three nodes with \<open>first = 10\<close>, the default
  start returns all three; the non-numeric \<open>after\<close> \<open>xyz\<close> returns none, and the negative
  \<open>after\<close> \<open>-1\<close> returns the last node only.
\<close>

theorem after_not_tolerant_counterexample:
  "parseInt ''xyz'' = None \<and> parseInt ''-1'' = Some (- 1)
   \<and> map node (edges (cursor_page (Given 10) Absent three_nodes)) = three_nodes
   \<and> map node (edges (cursor_page (Given 10) (Given ''xyz'') three_nodes)) = []
   \<and> map node (edges (cursor_page (Given 10) (Given ''-1'') three_nodes))
       = [mk_node ''n3'' ''Help'' False None]"
proof -
  have 1: "map node (edges (cursor_page (Given 10) Absent three_nodes)) = three_nodes"
    by code_simp
  have 2: "map node (edges (cursor_page (Given 10) (Given ''xyz'') three_nodes)) = []"
    by code_simp
  have 3: "map node (edges (cursor_page (Given 10) (Given ''-1'') three_nodes))
       = [mk_node ''n3'' ''Help'' False None]"
    by code_simp
  from 1 2 3 show ?thesis by (simp add: parseInt_abc parseInt_m1)
qed

text \<open>
  Claim C3, amended. In REST a \<open>page\<close> that is not a number, or is zero or negative,
  gives the same parameters as no \<open>page\<close>, with page 1. In GraphQL an absent, null or
  empty \<open>after\<close> gives the start index 0; a non-numeric \<open>after\<close> gives an empty page with
  both flags false and both cursors null; a negative \<open>after\<close> is the start of the slice as
  it is, counted from the end of the sequence. On an initialised store neither listing
  throws, whatever \<open>page\<close> and \<open>after\<close> are (the GraphQL one given a filter that is not
  null).
\<close>

theorem tolerant_boundary:
  "(parseInt_param (q_page q) = None \<or> (\<exists>n. parseInt_param (q_page q) = Some n \<and> n \<le> 0) \<longrightarrow>
      getPaginationParams q = getPaginationParams (q\<lparr>q_page := None\<rparr>)
    \<and> page (getPaginationParams q) = 1)
 \<and> (a = Absent \<or> a = Null \<or> a = Given [] \<longrightarrow> startIndex_of a = Some 0)
 \<and> (s \<noteq> [] \<and> parseInt s = None \<longrightarrow>
      cursor_page f (Given s) nodes =
        \<lparr>edges = [],
         pageInfo = \<lparr>hasNextPage = False, hasPreviousPage = False, startCursor = None, endCursor = None\<rparr>,
         totalCount = int (length nodes)\<rparr>)
 \<and> (parseInt s = Some n \<and> n < 0 \<longrightarrow>
      map node (edges (cursor_page f (Given s) nodes)) = js_slice nodes (Some n) (Some (n + first_number f)))
 \<and> (initialized db \<and> data db = Some d \<longrightarrow>
      (\<exists>r. NodeController_getNodes db q = Inr r)
    \<and> (filter_arg ar \<noteq> Null \<longrightarrow> (\<exists>c. NodeResolvers_getNodes db ar = Inr c)))"
proof -
  have 1: "parseInt_param (q_page q) = None \<or> (\<exists>n. parseInt_param (q_page q) = Some n \<and> n \<le> 0) \<Longrightarrow>
      getPaginationParams q = getPaginationParams (q\<lparr>q_page := None\<rparr>)
    \<and> page (getPaginationParams q) = 1"
    using getPaginationParams_default_page [of q] by blast
  have 2: "a = Absent \<or> a = Null \<or> a = Given [] \<Longrightarrow> startIndex_of a = Some 0"
    by (auto simp: startIndex_of_def)
  have 3: "s \<noteq> [] \<and> parseInt s = None \<Longrightarrow>
      cursor_page f (Given s) nodes =
        \<lparr>edges = [],
         pageInfo = \<lparr>hasNextPage = False, hasPreviousPage = False, startCursor = None, endCursor = None\<rparr>,
         totalCount = int (length nodes)\<rparr>"
    by (rule cursor_page_NaN) (simp add: startIndex_of_def)
  have 4: "parseInt s = Some n \<and> n < 0 \<Longrightarrow>
      map node (edges (cursor_page f (Given s) nodes)) = js_slice nodes (Some n) (Some (n + first_number f))"
    by (auto simp: cursor_page_nodes startIndex_of_def num_add_def parseInt_empty)
  have 5: "initialized db \<and> data db = Some d \<Longrightarrow> \<exists>r. NodeController_getNodes db q = Inr r"
    by (simp add: NodeController_getNodes_def findAll_nodes)
  have 6: "initialized db \<and> data db = Some d \<Longrightarrow> filter_arg ar \<noteq> Null \<Longrightarrow>
             \<exists>c. NodeResolvers_getNodes db ar = Inr c"
    by (cases "filter_arg ar") (simp_all add: getNodes_initialized)
  from 1 2 3 4 5 6 show ?thesis by blast
qed

text \<open>
  The amended C3 at the \<open>page\<close> and \<open>after\<close> value \<open>xyz\<close> and at the \<open>after\<close> value
  \<open>-1\<close>, over three nodes.
\<close>

theorem tolerant_boundary_witness:
  "parseInt_param (q_page (plain_query\<lparr>q_page := Some ''xyz''\<rparr>)) = None
   \<and> page (getPaginationParams (plain_query\<lparr>q_page := Some ''xyz''\<rparr>)) = 1
   \<and> startIndex_of (Given []) = Some 0
   \<and> ''xyz'' \<noteq> [] \<and> parseInt ''xyz'' = None
   \<and> edges (cursor_page (Given 10) (Given ''xyz'') three_nodes) = []
   \<and> parseInt ''-1'' = Some (- 1) \<and> (- 1 :: int) < 0
   \<and> map node (edges (cursor_page (Given 10) (Given ''-1'') three_nodes)) = [mk_node ''n3'' ''Help'' False None]
   \<and> initialized (mk_db three_nodes) \<and> data (mk_db three_nodes) = Some [''nodes'' \<mapsto> three_nodes]
   \<and> filter_arg \<lparr>first = Given 10, after = Given ''xyz'', filter_arg = Absent\<rparr> \<noteq> Null
   \<and> \<not> isl (NodeController_getNodes (mk_db three_nodes) (plain_query\<lparr>q_page := Some ''xyz''\<rparr>))
   \<and> \<not> isl (NodeResolvers_getNodes (mk_db three_nodes) \<lparr>first = Given 10, after = Given ''xyz'', filter_arg = Absent\<rparr>)"
proof -
  have q: "parseInt_param (q_page (plain_query\<lparr>q_page := Some ''xyz''\<rparr>)) = None"
    by (simp add: parseInt_param_def parseInt_abc)
  have db: "initialized (mk_db three_nodes)" "data (mk_db three_nodes) = Some [''nodes'' \<mapsto> three_nodes]"
    by (simp_all add: mk_db_def)
  have sl: "js_slice three_nodes (Some (- 1)) (Some (- 1 + first_number (Given 10))) = [mk_node ''n3'' ''Help'' False None]"
    by (simp add: js_slice_def relative_index_def three_nodes_def first_number_def)
  note w1 = tolerant_boundary [where q = "plain_query\<lparr>q_page := Some ''xyz''\<rparr>" and a = "Given []"
      and s = "''xyz''" and f = "Given 10" and nodes = three_nodes and n = 0
      and db = "mk_db three_nodes" and d = "[''nodes'' \<mapsto> three_nodes]"
      and ar = "\<lparr>first = Given 10, after = Given ''xyz'', filter_arg = Absent\<rparr>"]
  note w2 = tolerant_boundary [where q = "plain_query\<lparr>q_page := Some ''xyz''\<rparr>" and a = "Given []"
      and s = "''-1''" and f = "Given 10" and nodes = three_nodes and n = "- 1"
      and db = "mk_db three_nodes" and d = "[''nodes'' \<mapsto> three_nodes]"
      and ar = "\<lparr>first = Given 10, after = Given ''xyz'', filter_arg = Absent\<rparr>"]
  from w1 w2 q db sl show ?thesis
    by (auto simp: parseInt_abc parseInt_m1)
qed

end
